theory Spec2Isabelle
  imports Complex_Main "HOL-Library.Multiset"
begin

section \<open>JavaScript values used by the engine\<close>

text \<open>
  Numbers of the source are IEEE doubles. Block weights, page counts and capacities are
  integers and are modelled as \<open>int\<close>; the decimal constants (0.8, 1.05, 1.1, 0.7, 0.88, 1.12,
  the page dimensions) are modelled as exact rationals. Each comparison of the fit pass has an
  integer weight on one side and a product or quotient of an integer with such a constant on
  the other; rounding to a double does not change its outcome. A division is the only place
  where a non-finite number can appear; \<open>jsnum\<close> keeps these values apart.

  Array lengths are unbounded here, as HOL lists are, and a page count is an integer.
\<close>

datatype jsnum = Num rat | PosInfinity | NegInfinity | NaN

definition js_div :: "rat \<Rightarrow> rat \<Rightarrow> jsnum" where
  "js_div a b =
     (if b \<noteq> 0 then Num (a / b)
      else if 0 < a then PosInfinity
      else if a < 0 then NegInfinity
      else NaN)"

text \<open>\<open>js_gt x c\<close> is \<open>x > c\<close> and \<open>js_lt x c\<close> is \<open>x < c\<close>, for a finite \<open>c\<close>; every
  comparison with NaN is false.\<close>

fun js_gt :: "jsnum \<Rightarrow> rat \<Rightarrow> bool" where
  "js_gt (Num a) c = (c < a)"
| "js_gt PosInfinity c = True"
| "js_gt NegInfinity c = False"
| "js_gt NaN c = False"

fun js_lt :: "jsnum \<Rightarrow> rat \<Rightarrow> bool" where
  "js_lt (Num a) c = (a < c)"
| "js_lt PosInfinity c = False"
| "js_lt NegInfinity c = True"
| "js_lt NaN c = False"

text \<open>
  A string that carries text is the sequence of its UTF-16 code units. Type tags, identifiers
  and other strings that are only compared with ASCII literals are \<open>string\<close>s; \<open>utf16\<close> gives
  the code units of an ASCII literal.
\<close>

type_synonym jsstring = "int list"

definition utf16 :: "string \<Rightarrow> jsstring" where
  "utf16 s = map of_char s"

text \<open>
  An object literal used as a lookup table (\<open>weights\<close>, \<open>presetMap\<close>) inherits from
  \<open>Object.prototype\<close>: \<open>table[key]\<close> is the table's own entry, or else the inherited member of
  that name (a function, or the prototype itself for \<open>__proto__\<close>; each of them an object and so
  truthy), or else \<open>undefined\<close>.
\<close>

definition inheritedMembers :: "string list" where
  "inheritedMembers =
     [''constructor'', ''toString'', ''toLocaleString'', ''valueOf'', ''hasOwnProperty'',
      ''isPrototypeOf'', ''propertyIsEnumerable'', ''__proto__'', ''__defineGetter__'',
      ''__defineSetter__'', ''__lookupGetter__'', ''__lookupSetter__'']"

datatype 'a property = Own 'a | Inherited | Absent

definition lookup :: "(string \<times> 'a) list \<Rightarrow> string \<Rightarrow> 'a property" where
  "lookup table key =
     (case map_of table key of
        Some v \<Rightarrow> Own v
      | None \<Rightarrow> if key \<in> set inheritedMembers then Inherited else Absent)"

text \<open>
  The value of a weight or of a running total: an integer; or NaN; or a string that is not a
  numeral (what \<open>+\<close> gives when an operand is an object or such a string: the text of a
  function is part of it); or an object taken from the prototype. \<open>+\<close> adds two numbers and
  concatenates otherwise; \<open>-\<close> converts both operands to numbers, and everything but a number
  converts to NaN; a comparison with a number is false unless the value is a number.
\<close>

datatype jsval = Number int | NaNValue | StringValue | ObjectValue

fun js_add :: "jsval \<Rightarrow> jsval \<Rightarrow> jsval" where
  "js_add (Number a) (Number b) = Number (a + b)"
| "js_add (Number a) NaNValue = NaNValue"
| "js_add NaNValue (Number b) = NaNValue"
| "js_add NaNValue NaNValue = NaNValue"
| "js_add x y = StringValue"

fun js_sub :: "jsval \<Rightarrow> jsval \<Rightarrow> jsval" where
  "js_sub (Number a) (Number b) = Number (a - b)"
| "js_sub x y = NaNValue"

text \<open>\<open>val_gt x c\<close> is \<open>x > c\<close> and \<open>val_le x c\<close> is \<open>x <= c\<close>, for a finite number \<open>c\<close>;
  \<open>val_gt_num x y\<close> is \<open>x > y\<close> for a number \<open>y\<close> that may be infinite; \<open>val_div x n\<close> is
  \<open>x / n\<close>.\<close>

fun val_gt :: "jsval \<Rightarrow> rat \<Rightarrow> bool" where
  "val_gt (Number a) c = (c < of_int a)"
| "val_gt x c = False"

fun val_le :: "jsval \<Rightarrow> rat \<Rightarrow> bool" where
  "val_le (Number a) c = (of_int a \<le> c)"
| "val_le x c = False"

fun val_gt_num :: "jsval \<Rightarrow> jsnum \<Rightarrow> bool" where
  "val_gt_num (Number a) (Num c) = (c < of_int a)"
| "val_gt_num (Number a) NegInfinity = True"
| "val_gt_num x y = False"

fun val_div :: "jsval \<Rightarrow> int \<Rightarrow> jsnum" where
  "val_div (Number a) n = js_div (of_int a) (of_int n)"
| "val_div x n = NaN"

datatype error = RangeError | TypeError

text \<open>
  \<open>Array.prototype.sort\<close> with a comparator: the language requires a stable sort, so with a
  consistent comparator the result is the stable ordering. It is modelled by stable insertion:
  an element is placed before the first later element that the comparator does not put in front
  of it. The comparator returns a number, an integer or a rational here; the sort reads a
  result that is NaN as 0 (\<open>compare_result\<close>).
\<close>

fun compare_result :: "jsval \<Rightarrow> int" where
  "compare_result (Number n) = n"
| "compare_result x = 0"

fun js_insert :: "('a \<Rightarrow> 'a \<Rightarrow> 'n::linordered_idom) \<Rightarrow> 'a \<Rightarrow> 'a list \<Rightarrow> 'a list" where
  "js_insert cmp x [] = [x]"
| "js_insert cmp x (y # ys) = (if cmp x y \<le> 0 then x # y # ys else y # js_insert cmp x ys)"

fun js_sort :: "('a \<Rightarrow> 'a \<Rightarrow> 'n::linordered_idom) \<Rightarrow> 'a list \<Rightarrow> 'a list" where
  "js_sort cmp [] = []"
| "js_sort cmp (x # xs) = js_insert cmp x (js_sort cmp xs)"

text \<open>\<open>xs.slice(0, e)\<close>: a negative end counts from the end of the array.\<close>

definition js_slice0 :: "'a list \<Rightarrow> int \<Rightarrow> 'a list" where
  "js_slice0 xs e = (if e < 0 then take (nat (int (length xs) + e)) xs else take (nat e) xs)"


section \<open>Content blocks and their visual weight\<close>

text \<open>
  A content block is a loosely typed object. \<open>block\<close> is a block as the engine and the adapter
  read it: its type tag, and its text fields after \<open>String(field || "")\<close>, so that a missing
  field is the empty string; a missing type is a tag that is in no table. (The adapter converts
  with \<open>??\<close> in place of \<open>||\<close>; the two differ only on a falsy field that is not a string,
  which is not modelled.) An array entry may be \<open>null\<close>: \<open>None\<close>.
\<close>

record block =
  b_type :: string
  b_text :: jsstring
  b_term :: jsstring
  b_definition :: jsstring
  b_value :: jsstring
  b_label :: jsstring

text \<open>A block that has only a type and a text, as \<open>{ type: 'h2', text: '...' }\<close>.\<close>

definition plain_block :: "string \<Rightarrow> string \<Rightarrow> block option" where
  "plain_block ty txt =
     Some \<lparr>b_type = ty, b_text = utf16 txt, b_term = [], b_definition = [], b_value = [],
           b_label = []\<rparr>"

text \<open>
  The white space of \<open>trim()\<close> and of \<open>\s\<close>: tab, line feed, vertical tab, form feed, carriage
  return, space, no-break space, U+1680, U+2000 to U+200A, the line and paragraph separators,
  U+202F, U+205F, U+3000 and U+FEFF.
\<close>

definition is_space :: "int \<Rightarrow> bool" where
  "is_space c =
     (c \<in> set [0x09, 0x0A, 0x0B, 0x0C, 0x0D, 0x20, 0xA0, 0x1680, 0x2028, 0x2029, 0x202F,
               0x205F, 0x3000, 0xFEFF]
      \<or> (0x2000 \<le> c \<and> c \<le> 0x200A))"

definition trim :: "jsstring \<Rightarrow> jsstring" where
  "trim s = rev (dropWhile is_space (rev (dropWhile is_space s)))"

text \<open>\<open>str.split(/\s+/)\<close>: the pieces between maximal runs of white space.\<close>

function split_ws :: "jsstring \<Rightarrow> jsstring list" where
  "split_ws s =
     (case dropWhile (\<lambda>c. \<not> is_space c) s of
        [] \<Rightarrow> [s]
      | c # cs \<Rightarrow> takeWhile (\<lambda>c. \<not> is_space c) s # split_ws (dropWhile is_space cs))"
  by pat_completeness auto
termination
proof (relation "measure length", goal_cases)
  case 1
  show ?case by simp
next
  case (2 s c cs)
  have "length (dropWhile is_space cs) \<le> length cs"
    by (rule length_dropWhile_le)
  moreover have "length (c # cs) \<le> length s"
    using length_dropWhile_le [of "\<lambda>c. \<not> is_space c" s] 2 by simp
  ultimately show ?case by simp
qed

declare split_ws.simps [simp del]

definition countWords :: "jsstring \<Rightarrow> nat" where
  "countWords val =
     (if val = [] then 0
      else length (filter (\<lambda>w. 0 < length w) (split_ws (trim val))))"

text \<open>The table \<open>weights\<close> is built for the block at hand: the paragraph entry depends on it.\<close>

definition weights :: "block \<Rightarrow> (string \<times> int) list" where
  "weights b =
     [(''h2'', 100),
      (''h3'', 70),
      (''p'', \<lceil>rat_of_nat (countWords (b_text b)) * (8 / 10) + 30\<rceil>),
      (''image_prompt'', 320),
      (''stat'', 200),
      (''key_term'', 180),
      (''case_study'', 280),
      (''table'', 250),
      (''takeaway'', 100),
      (''quote'', 120)]"

text \<open>
  \<open>weights[block.type] || 80\<close>: an own entry that is not 0, or the inherited member of that
  name, or 80.
\<close>

fun getBlockWeight :: "block option \<Rightarrow> jsval" where
  "getBlockWeight None = Number 0"
| "getBlockWeight (Some b) =
     (case lookup (weights b) (b_type b) of
        Own w \<Rightarrow> if w = 0 then Number 80 else Number w
      | Inherited \<Rightarrow> ObjectValue
      | Absent \<Rightarrow> Number 80)"


section \<open>Content fitting engine\<close>

definition PAGE_CAPACITY :: int where
  "PAGE_CAPACITY = 850"

text \<open>\<open>blocks.reduce((sum, b) => sum + getBlockWeight(b), 0)\<close>.\<close>

definition total_weight :: "block option list \<Rightarrow> jsval" where
  "total_weight bs = foldl (\<lambda>sum b. js_add sum (getBlockWeight b)) (Number 0) bs"



subsection \<open>Pagination\<close>

definition placeholderContent :: "block option list" where
  "placeholderContent =
     [Some \<lparr>b_type = ''h2'', b_text = utf16 ''Additional Analysis'', b_term = [],
            b_definition = [], b_value = [], b_label = []\<rparr>,
      Some \<lparr>b_type = ''p'',
            b_text = utf16 ''This section provides further analysis and insights that complement the main content presented in this document. The additional material helps to provide a more comprehensive understanding of the topic.'',
            b_term = [], b_definition = [], b_value = [], b_label = []\<rparr>,
      Some \<lparr>b_type = ''p'',
            b_text = utf16 ''Further research and investigation could explore additional aspects of this subject matter, including case studies, comparative analyses, and practical applications.'',
            b_term = [], b_definition = [], b_value = [], b_label = []\<rparr>,
      Some \<lparr>b_type = ''key_term'', b_text = [], b_term = utf16 ''Research Implications'',
            b_definition = utf16 ''The broader impact and significance of the findings for future studies and practical applications in this field.'',
            b_value = [], b_label = []\<rparr>]"

text \<open>The \<open>for\<close> loop over the blocks; the state is \<open>(pages, currentPage, currentWeight)\<close>.\<close>

fun paginate_loop ::
  "int \<Rightarrow> jsnum \<Rightarrow> block option list \<Rightarrow>
   block option list list \<times> block option list \<times> jsval \<Rightarrow>
   block option list list \<times> block option list \<times> jsval" where
  "paginate_loop contentPages cap [] st = st"
| "paginate_loop contentPages cap (blk # rest) (pages, currentPage, currentWeight) =
     (let weight = getBlockWeight blk in
      if val_gt_num (js_add currentWeight weight) cap \<and> int (length pages) < contentPages - 1
      then paginate_loop contentPages cap rest (pages @ [currentPage], [blk], weight)
      else paginate_loop contentPages cap rest
             (pages, currentPage @ [blk], js_add currentWeight weight))"

text \<open>The \<open>while\<close> loop that pads with placeholder pages.\<close>

function pad_pages :: "int \<Rightarrow> block option list list \<Rightarrow> block option list list" where
  "pad_pages contentPages pages =
     (if int (length pages) < contentPages
      then pad_pages contentPages (pages @ [placeholderContent])
      else pages)"
  by pat_completeness auto
termination
  by (relation "measure (\<lambda>(contentPages, pages). nat (contentPages - int (length pages)))") auto

declare pad_pages.simps [simp del]

text \<open>The pages after the loop and the push of the page in progress.\<close>

definition greedy_pages :: "block option list \<Rightarrow> int \<Rightarrow> rat \<Rightarrow> block option list list" where
  "greedy_pages blocks contentPages scale =
     (case paginate_loop contentPages (js_div 850 scale) blocks ([], [], Number 0) of
        (pages, currentPage, currentWeight) \<Rightarrow>
          if 0 < length currentPage then pages @ [currentPage] else pages)"

definition paginateContent ::
  "block option list option \<Rightarrow> int \<Rightarrow> rat \<Rightarrow> error + block option list list" where
  "paginateContent blocks contentPages scale =
     (case blocks of
        None \<Rightarrow> if contentPages < 0 then Inl RangeError else Inr (replicate (nat contentPages) [])
      | Some [] \<Rightarrow> if contentPages < 0 then Inl RangeError else Inr (replicate (nat contentPages) [])
      | Some (b # bs) \<Rightarrow>
          Inr (js_slice0 (pad_pages contentPages (greedy_pages (b # bs) contentPages scale))
                 contentPages))"


subsection \<open>Fit pass\<close>

definition removalPriority :: "string list" where
  "removalPriority = [''quote'', ''takeaway'', ''stat'', ''key_term'', ''image_prompt'']"

text \<open>\<open>blocks[i]?.type === type\<close>: false on a \<open>null\<close> entry.\<close>

fun has_type :: "string \<Rightarrow> block option \<Rightarrow> bool" where
  "has_type ty None = False"
| "has_type ty (Some b) = (b_type b = ty)"

text \<open>
  The inner loop \<open>for (let i = blocks.length - 1; i >= 0; i--)\<close> for one type. The counter of
  the model is \<open>i + 1\<close>; the state is the array and \<open>currentWeight\<close>; \<open>bound\<close> is
  \<open>TOTAL_CAPACITY * 1.05\<close>. The second \<open>if\<close> is the \<open>break\<close> after a removal.
\<close>

fun remove_type_loop ::
  "string \<Rightarrow> rat \<Rightarrow> nat \<Rightarrow> block option list \<times> jsval \<Rightarrow> block option list \<times> jsval" where
  "remove_type_loop ty bound 0 st = st"
| "remove_type_loop ty bound (Suc i) (blocks, currentWeight) =
     (if has_type ty (blocks ! i) then
        (let currentWeight' = js_sub currentWeight (getBlockWeight (blocks ! i));
             blocks' = blocks[i := None]
         in if val_le currentWeight' bound then (blocks', currentWeight')
            else remove_type_loop ty bound i (blocks', currentWeight'))
      else remove_type_loop ty bound i (blocks, currentWeight))"

text \<open>The outer loop \<open>for (const type of removalPriority)\<close>, with its \<open>break\<close> at the top.\<close>

fun trim_priority ::
  "string list \<Rightarrow> rat \<Rightarrow> block option list \<times> jsval \<Rightarrow> block option list \<times> jsval" where
  "trim_priority [] bound st = st"
| "trim_priority (ty # tys) bound (blocks, currentWeight) =
     (if val_le currentWeight bound then (blocks, currentWeight)
      else trim_priority tys bound
             (remove_type_loop ty bound (length blocks) (blocks, currentWeight)))"

text \<open>\<open>blocks.map((b, i) => ({ b, i }))\<close>, counting from \<open>k\<close>.\<close>

fun with_index :: "nat \<Rightarrow> 'a list \<Rightarrow> ('a \<times> nat) list" where
  "with_index k [] = []"
| "with_index k (b # bs) = (b, k) # with_index (Suc k) bs"

text \<open>The comparator \<open>(a, b) => getBlockWeight(b.b) - getBlockWeight(a.b)\<close>.\<close>

definition byWeightDesc :: "block option \<times> nat \<Rightarrow> block option \<times> nat \<Rightarrow> int" where
  "byWeightDesc a b = compare_result (js_sub (getBlockWeight (fst b)) (getBlockWeight (fst a)))"

definition paragraphs :: "block option list \<Rightarrow> (block option \<times> nat) list" where
  "paragraphs blocks =
     js_sort byWeightDesc (filter (\<lambda>x. has_type ''p'' (fst x)) (with_index 0 blocks))"

text \<open>The loop \<open>for (const p of paragraphs)\<close>.\<close>

fun remove_paragraphs ::
  "rat \<Rightarrow> (block option \<times> nat) list \<Rightarrow> block option list \<times> jsval \<Rightarrow>
   block option list \<times> jsval" where
  "remove_paragraphs bound [] st = st"
| "remove_paragraphs bound (p # ps) (blocks, currentWeight) =
     (if val_le currentWeight bound then (blocks, currentWeight)
      else remove_paragraphs bound ps
             (blocks[snd p := None], js_sub currentWeight (getBlockWeight (fst p))))"

text \<open>Phase 1, the body of \<open>if (currentWeight > TOTAL_CAPACITY * 1.1)\<close>.\<close>

definition trim_blocks :: "int \<Rightarrow> block option list \<times> jsval \<Rightarrow> block option list \<times> jsval" where
  "trim_blocks TOTAL_CAPACITY st =
     (let bound = of_int TOTAL_CAPACITY * (105 / 100);
          st1 = trim_priority removalPriority bound st;
          st2 = (if val_gt (snd st1) bound
                 then remove_paragraphs bound (paragraphs (fst st1)) st1
                 else st1);
          blocks = filter (\<lambda>b. b \<noteq> None) (fst st2)
      in (blocks, total_weight blocks))"

text \<open>
  The returned object. \<open>utilization\<close> holds the ratio itself; its formatting as a percentage
  string is not modelled. \<open>metrics: {}\<close> is \<open>None\<close>.
\<close>

record metrics =
  totalWeight :: jsval
  capacity :: int
  utilization :: jsnum
  blockCount :: nat

record fit_result =
  res_blocks :: "block option list"
  res_scale :: rat
  res_metrics :: "metrics option"

definition fit_state :: "block option list \<Rightarrow> int \<Rightarrow> block option list \<times> jsval" where
  "fit_state allBlocks contentPages =
     (let TOTAL_CAPACITY = contentPages * PAGE_CAPACITY;
          currentWeight = total_weight allBlocks
      in if val_gt currentWeight (of_int TOTAL_CAPACITY * (11 / 10))
         then trim_blocks TOTAL_CAPACITY (allBlocks, currentWeight)
         else (allBlocks, currentWeight))"

definition optimizeContentToFit :: "block option list option \<Rightarrow> int \<Rightarrow> fit_result" where
  "optimizeContentToFit allBlocks contentPages =
     (case allBlocks of
        None \<Rightarrow> \<lparr>res_blocks = [], res_scale = 1, res_metrics = None\<rparr>
      | Some [] \<Rightarrow> \<lparr>res_blocks = [], res_scale = 1, res_metrics = None\<rparr>
      | Some (b # bs) \<Rightarrow>
          (let TOTAL_CAPACITY = contentPages * PAGE_CAPACITY;
               (blocks, currentWeight) = fit_state (b # bs) contentPages;
               utilizationRatio = val_div currentWeight TOTAL_CAPACITY;
               scale = (if js_gt utilizationRatio 1 then 88 / 100
                        else if js_lt utilizationRatio (7 / 10) then 112 / 100
                        else 1)
           in \<lparr>res_blocks = blocks, res_scale = scale,
               res_metrics = Some \<lparr>totalWeight = currentWeight, capacity = TOTAL_CAPACITY,
                                    utilization = utilizationRatio,
                                    blockCount = length blocks\<rparr>\<rparr>))"

subsection \<open>Blocks as they arrive\<close>

text \<open>
  \<open>getBlockWeight\<close> builds its table for every block that is not \<open>null\<close>, and the paragraph
  entry evaluates \<open>String(block.text || "")\<close>. The field \<open>text\<close> of a block that was parsed from
  JSON is absent or falsy (\<open>TextAbsent\<close>), or a string, or an object. \<open>String\<close> of an object
  calls its \<open>toString\<close> and \<open>valueOf\<close>; it gives a string (\<open>TextObject (Some s)\<close>; a number or
  \<open>true\<close> is given by its string in the same way), or, when neither method gives a primitive,
  as for \<open>{ "toString": null }\<close>, it raises a TypeError (\<open>TextObject None\<close>).
\<close>

datatype text_field = TextAbsent | TextString jsstring | TextObject "jsstring option"

record any_block =
  a_type :: string
  a_text :: text_field
  a_term :: jsstring
  a_definition :: jsstring
  a_value :: jsstring
  a_label :: jsstring

fun to_String :: "text_field \<Rightarrow> error + jsstring" where
  "to_String TextAbsent = Inr []"
| "to_String (TextString s) = Inr s"
| "to_String (TextObject (Some s)) = Inr s"
| "to_String (TextObject None) = Inl TypeError"

text \<open>What \<open>getBlockWeight\<close> reads of one array entry, or the error it raises.\<close>

fun read_block :: "any_block option \<Rightarrow> error + block option" where
  "read_block None = Inr None"
| "read_block (Some a) =
     (case to_String (a_text a) of
        Inl e \<Rightarrow> Inl e
      | Inr s \<Rightarrow>
          Inr (Some \<lparr>b_type = a_type a, b_text = s, b_term = a_term a,
                     b_definition = a_definition a, b_value = a_value a,
                     b_label = a_label a\<rparr>))"

fun read_blocks :: "any_block option list \<Rightarrow> error + block option list" where
  "read_blocks [] = Inr []"
| "read_blocks (a # as) =
     (case read_block a of
        Inl e \<Rightarrow> Inl e
      | Inr b \<Rightarrow> (case read_blocks as of Inl e \<Rightarrow> Inl e | Inr bs \<Rightarrow> Inr (b # bs)))"

text \<open>
  \<open>optimizeContentToFit\<close> on blocks as they arrive. After the guard for an empty input, the
  first statement that touches the blocks sums \<open>getBlockWeight\<close> over all of them, in order: a
  conversion that raises ends the call there. When every conversion succeeds, the function
  goes on with the blocks as read, and the blocks of the result are given as read.
\<close>

definition optimizeContentToFit_any ::
  "any_block option list option \<Rightarrow> int \<Rightarrow> error + fit_result" where
  "optimizeContentToFit_any allBlocks contentPages =
     (case allBlocks of
        None \<Rightarrow> Inr \<lparr>res_blocks = [], res_scale = 1, res_metrics = None\<rparr>
      | Some [] \<Rightarrow> Inr \<lparr>res_blocks = [], res_scale = 1, res_metrics = None\<rparr>
      | Some (a # as) \<Rightarrow>
          (case read_blocks (a # as) of
             Inl e \<Rightarrow> Inl e
           | Inr bs \<Rightarrow> Inr (optimizeContentToFit (Some bs) contentPages)))"


subsection \<open>The trimming policy in the words of the specification\<close>














definition ex_fitted :: "block option list" where
  "ex_fitted =
     [plain_block ''h2'' ''a'', plain_block ''h2'' ''b'', plain_block ''h2'' ''c'',
      plain_block ''h2'' ''d'', plain_block ''h2'' ''e'', plain_block ''h2'' ''f'',
      plain_block ''h2'' ''g'', plain_block ''h3'' ''h'', plain_block ''quote'' ''q1'']"

definition ex_over :: "block option list" where
  "ex_over = ex_fitted @ [plain_block ''quote'' ''q2'']"

definition ex_unreadable :: "any_block option list" where
  "ex_unreadable =
     [Some \<lparr>a_type = ''p'', a_text = TextObject None, a_term = [], a_definition = [],
            a_value = [], a_label = []\<rparr>]"


section \<open>Document model\<close>

text \<open>
  The schema of \<open>schema.ts\<close>, with the fields that the renderer and the adapter read or
  write. An optional field is an \<open>option\<close>. Descriptors that the renderer only hands on to the
  backend (\<open>as unknown\<close>) are kept as opaque strings.
\<close>

record BoxLayout =
  l_position :: "string option"
  l_x :: "rat option"
  l_y :: "rat option"
  l_width :: "rat option"
  l_height :: "rat option"
  l_zIndex :: "rat option"
  l_backgroundColor :: "string option"

record PDFTextFont =
  font_family :: string
  font_weight :: "string option"

record PDFTextStroke =
  stroke_width :: "rat option"
  stroke_color :: "string option"

record ParagraphStyle =
  par_align :: "string option"

record PDFTextStyle =
  ts_font :: PDFTextFont
  ts_fontSize :: rat
  ts_kerning :: "rat option"
  ts_tracking :: "rat option"
  ts_leading :: "rat option"
  ts_color :: "string option"
  ts_opacity :: "rat option"
  ts_decorations :: "string option"
  ts_stroke :: "PDFTextStroke option"
  ts_gradientFill :: "string option"
  ts_paragraph :: "ParagraphStyle option"

record PDFTextElementData =
  td_text :: jsstring
  td_style :: PDFTextStyle

record PDFImageElementData =
  img_src :: string
  img_objectFit :: "string option"
  img_borderRadius :: "string option"
  img_opacity :: "rat option"
  img_shadow :: "string option"
  img_blendMode :: "string option"

record PDFVectorShapeElementData =
  sh_shapeType :: string
  sh_pathData :: "string option"
  sh_points :: "(rat \<times> rat) list option"
  sh_rx :: "rat option"
  sh_ry :: "rat option"
  sh_stroke :: "string option"
  sh_fill :: "string option"

text \<open>
  An element is its identifier, its layout and the data of its variant. \<open>OtherElement\<close> stands
  for an object whose \<open>type\<close> is none of the four.
\<close>

datatype PDFElement =
    BoxElement string BoxLayout "PDFElement list option"
  | TextElement string BoxLayout PDFTextElementData
  | ImageElement string BoxLayout PDFImageElementData
  | ShapeElement string BoxLayout PDFVectorShapeElementData
  | OtherElement string BoxLayout

fun layout :: "PDFElement \<Rightarrow> BoxLayout" where
  "layout (BoxElement i l c) = l"
| "layout (TextElement i l t) = l"
| "layout (ImageElement i l g) = l"
| "layout (ShapeElement i l s) = l"
| "layout (OtherElement i l) = l"

record PDFPageSize =
  ps_preset :: "string option"
  ps_width :: "rat option"
  ps_height :: "rat option"

record PDFPage =
  page_id :: string
  page_size :: PDFPageSize
  page_backgroundColor :: "string option"
  page_backgroundImage :: "string option"
  page_elements :: "PDFElement list"

record PDFMetadata =
  md_title :: "jsstring option"
  md_subject :: "string option"
  md_author :: "string option"
  md_creator :: "string option"
  md_keywords :: "string list option"

record RenderOptions =
  ro_defaultDpi :: "rat option"
  ro_compression :: "string option"
  ro_embedFonts :: "bool option"

record PDFDocument =
  doc_id :: string
  doc_version :: string
  doc_pages :: "PDFPage list"
  doc_metadata :: "PDFMetadata option"
  doc_colorProfile :: "string option"
  doc_renderOptions :: "RenderOptions option"


section \<open>Page-size resolver\<close>

text \<open>
  The test \<open>size.preset && presetMap[size.preset]\<close> fails for an absent or empty preset and
  for a name that \<open>presetMap\<close> neither has nor inherits. For an inherited name it succeeds, and
  \<open>base\<close> is the inherited member, whose \<open>wPt\<close> and \<open>hPt\<close> are \<open>undefined\<close>: \<open>None\<close>.
\<close>

definition presetMap :: "(string \<times> rat \<times> rat) list" where
  "presetMap =
     [(''A4'', (59528 / 100, 84189 / 100)),
      (''Letter'', (612, 792)),
      (''Legal'', (612, 1008))]"

text \<open>\<open>v ?? d\<close>.\<close>

definition nullish :: "'a option \<Rightarrow> 'a \<Rightarrow> 'a" where
  "nullish v d = (case v of None \<Rightarrow> d | Some x \<Rightarrow> x)"

definition resolvePageSize :: "PDFPageSize \<Rightarrow> rat \<Rightarrow> rat option \<times> rat option" where
  "resolvePageSize sz dpi =
     (case (case ps_preset sz of
              None \<Rightarrow> Absent
            | Some p \<Rightarrow> if p = [] then Absent else lookup presetMap p) of
        Own (wPt, hPt) \<Rightarrow> (Some wPt, Some hPt)
      | Inherited \<Rightarrow> (None, None)
      | Absent \<Rightarrow>
          (Some (nullish (ps_width sz) (59528 / 100)),
           Some (nullish (ps_height sz) (84189 / 100))))"


section \<open>Content model adapter\<close>

record TextoraPage =
  tp_title :: "jsstring option"
  tp_content :: "block option list option"

record TextoraDoc =
  src_title :: "jsstring option"
  src_subtitle :: "jsstring option"
  src_pages :: "TextoraPage list option"

record TextoraSettings =
  set_pages :: "rat option"
  set_type :: "string option"
  set_audience :: "string option"

definition A4_SIZE :: PDFPageSize where
  "A4_SIZE = \<lparr>ps_preset = Some ''A4'', ps_width = None, ps_height = None\<rparr>"

text \<open>The \<open>leading\<close> of a style is the exact product; its rounding to a double is not modelled.\<close>

definition baseHeadingStyle :: "rat \<Rightarrow> PDFTextStyle" where
  "baseHeadingStyle sz =
     \<lparr>ts_font = \<lparr>font_family = ''Inter'', font_weight = Some ''bold''\<rparr>,
      ts_fontSize = sz, ts_kerning = None, ts_tracking = None,
      ts_leading = Some (sz * (12 / 10)), ts_color = Some ''#111827'', ts_opacity = None,
      ts_decorations = None, ts_stroke = None, ts_gradientFill = None, ts_paragraph = None\<rparr>"

definition baseBodyStyle :: "rat \<Rightarrow> PDFTextStyle" where
  "baseBodyStyle sz =
     \<lparr>ts_font = \<lparr>font_family = ''Inter'', font_weight = Some ''normal''\<rparr>,
      ts_fontSize = sz, ts_kerning = None, ts_tracking = None,
      ts_leading = Some (sz * (15 / 10)), ts_color = Some ''#1f2933'', ts_opacity = None,
      ts_decorations = None, ts_stroke = None, ts_gradientFill = None, ts_paragraph = None\<rparr>"

text \<open>The layout literal \<open>{ position: 'absolute', x, y, width, height, backgroundColor }\<close>.\<close>

definition absolute :: "rat \<Rightarrow> rat \<Rightarrow> rat \<Rightarrow> rat \<Rightarrow> string option \<Rightarrow> BoxLayout" where
  "absolute x y w h bg =
     \<lparr>l_position = Some ''absolute'', l_x = Some x, l_y = Some y, l_width = Some w,
      l_height = Some h, l_zIndex = None, l_backgroundColor = bg\<rparr>"

text \<open>A number inside a template string: its decimal digits.\<close>

fun show_nat :: "nat \<Rightarrow> string" where
  "show_nat n =
     (if n < 10 then [char_of (48 + n)]
      else show_nat (n div 10) @ [char_of (48 + n mod 10)])"

declare show_nat.simps [simp del]

definition lineHeight :: rat where
  "lineHeight = 20"

text \<open>
  The callback of \<open>(page.content || []).forEach((block, blockIndex) => ...)\<close>. The state is
  the array \<open>elements\<close> and \<open>cursorY\<close>; the argument is the block with its index.
\<close>

definition adapt_block ::
  "nat \<Rightarrow> PDFElement list \<times> rat \<Rightarrow> block option \<times> nat \<Rightarrow> PDFElement list \<times> rat" where
  "adapt_block pageIndex st x =
     (case fst x of
        None \<Rightarrow> st
      | Some blk \<Rightarrow>
          (let elements = fst st;
               cursorY = snd st;
               idBase = ''p'' @ show_nat (pageIndex + 1) @ ''-b'' @ show_nat (snd x)
           in if b_type blk = ''h2'' then
                (elements @
                   [TextElement (idBase @ ''-h2'') (absolute 72 cursorY 450 30 None)
                      \<lparr>td_text = b_text blk, td_style = baseHeadingStyle 18\<rparr>],
                 cursorY + lineHeight * 2)
              else if b_type blk = ''p'' then
                (elements @
                   [TextElement (idBase @ ''-p'') (absolute 72 cursorY 450 60 None)
                      \<lparr>td_text = b_text blk, td_style = baseBodyStyle 12\<rparr>],
                 cursorY + lineHeight * 3)
              else if b_type blk = ''stat'' then
                (elements @
                   [BoxElement (idBase @ ''-stat-box'')
                      (absolute 72 cursorY 200 80 (Some ''#f1f5f9''))
                      (Some
                        [TextElement (idBase @ ''-stat-value'')
                           (absolute 82 (cursorY + 12) 180 30 None)
                           \<lparr>td_text = b_value blk, td_style = baseHeadingStyle 20\<rparr>,
                         TextElement (idBase @ ''-stat-label'')
                           (absolute 82 (cursorY + 42) 180 20 None)
                           \<lparr>td_text = b_label blk, td_style = baseBodyStyle 10\<rparr>])],
                 cursorY + 100)
              else st))"

text \<open>The walk over the content of one page, from \<open>cursorY = 130\<close>.\<close>

definition walk_content ::
  "nat \<Rightarrow> PDFElement list \<Rightarrow> block option list \<Rightarrow> PDFElement list \<times> rat" where
  "walk_content pageIndex elements content =
     foldl (adapt_block pageIndex) (elements, 130) (with_index 0 content)"

text \<open>The heading of a content page, pushed when \<open>page.title\<close> is a non-empty string.\<close>

definition titleElements :: "TextoraPage \<Rightarrow> nat \<Rightarrow> PDFElement list" where
  "titleElements page pageIndex =
     (case tp_title page of
        None \<Rightarrow> []
      | Some t \<Rightarrow>
          if t = [] then []
          else [TextElement (''page-'' @ show_nat (pageIndex + 1) @ ''-title'')
                  (absolute 72 72 450 40 None)
                  \<lparr>td_text = t, td_style = baseHeadingStyle 24\<rparr>])"

text \<open>The callback of \<open>(source.pages || []).forEach((page, pageIndex) => ...)\<close>.\<close>

definition content_page :: "TextoraPage \<times> nat \<Rightarrow> PDFPage" where
  "content_page x =
     (let page = fst x;
          pageIndex = snd x;
          elements = titleElements page pageIndex;
          content = (case tp_content page of None \<Rightarrow> [] | Some c \<Rightarrow> c)
      in \<lparr>page_id = ''page-'' @ show_nat (pageIndex + 1), page_size = A4_SIZE,
          page_backgroundColor = Some ''#ffffff'', page_backgroundImage = None,
          page_elements = fst (walk_content pageIndex elements content)\<rparr>)"

definition coverPage :: "TextoraDoc \<Rightarrow> PDFPage" where
  "coverPage source =
     \<lparr>page_id = ''page-cover'', page_size = A4_SIZE,
      page_backgroundColor = Some ''#ffffff'', page_backgroundImage = None,
      page_elements =
        (case src_title source of
           None \<Rightarrow> []
         | Some t \<Rightarrow>
             if t = [] then []
             else [TextElement ''cover-title'' (absolute 72 200 400 80 None)
                     \<lparr>td_text = t, td_style = baseHeadingStyle 32\<rparr>]) @
        (case src_subtitle source of
           None \<Rightarrow> []
         | Some t \<Rightarrow>
             if t = [] then []
             else [TextElement ''cover-subtitle'' (absolute 72 280 420 60 None)
                     \<lparr>td_text = t, td_style = baseBodyStyle 16\<rparr>])\<rparr>"

definition buildPdfDocumentFromTextora ::
  "TextoraDoc \<Rightarrow> TextoraSettings \<Rightarrow> bool \<Rightarrow> PDFDocument" where
  "buildPdfDocumentFromTextora source settings isLandscape =
     \<lparr>doc_id = ''textora-doc'', doc_version = ''1.0.0'',
      doc_pages =
        coverPage source #
        map content_page (with_index 0 (case src_pages source of None \<Rightarrow> [] | Some ps \<Rightarrow> ps)),
      doc_metadata =
        Some \<lparr>md_title = src_title source, md_subject = set_type settings,
              md_author = set_audience settings, md_creator = Some ''GoodPDF Pro'',
              md_keywords = Some [''GoodPDF'', ''Textora'', ''Auto-generated'']\<rparr>,
      doc_colorProfile = Some ''rgb'',
      doc_renderOptions =
        Some \<lparr>ro_defaultDpi = Some 300, ro_compression = Some ''max'',
              ro_embedFonts = Some True\<rparr>\<rparr>"


section \<open>Renderer\<close>

record Rect =
  r_x :: rat
  r_y :: rat
  r_width :: rat
  r_height :: rat

text \<open>
  The backend is an object whose methods are called for their effect. A run of the renderer is
  modelled by the sequence of the calls it makes, in the order it makes them, each with its
  arguments (the frame of \<open>drawBackgroundImage\<close> by its four components, as the page width
  and height may be \<open>undefined\<close>). \<open>computeObjectFit\<close> is the one method whose result the
  renderer uses: the function \<open>fit\<close> stands for the backend's answer. A backend that throws is
  not modelled.
\<close>

datatype call =
    BeginDocument "PDFMetadata option" "string option" rat
  | EndDocument
  | BeginPage "rat option" "rat option"
  | EndPage
  | SaveState
  | RestoreState
  | DrawRect rat rat "rat option" "rat option" "string option"
  | DrawBackgroundImage rat rat "rat option" "rat option" string
  | SetFont PDFTextFont
  | SetFontSize rat
  | SetFillColor string
  | SetOpacity rat
  | SetTextGradient string Rect
  | SetTextStroke rat string
  | DrawText jsstring Rect string "rat option" "rat option" "rat option"
      "ParagraphStyle option" "string option"
  | SetBlendMode string
  | ComputeObjectFit Rect string
  | DrawShadow Rect string
  | DrawImage string Rect "string option"
  | SetShapeStroke "string option"
  | SetShapeFill "string option"
  | DrawShape Rect string "string option" "(rat \<times> rat) list option" "rat option" "rat option"

text \<open>A \<open>LayoutContext\<close> holds the resolution only; it is modelled by that number.\<close>

definition computeFrame :: "BoxLayout \<Rightarrow> Rect" where
  "computeFrame l =
     \<lparr>r_x = nullish (l_x l) 0, r_y = nullish (l_y l) 0,
      r_width = nullish (l_width l) 0, r_height = nullish (l_height l) 0\<rparr>"

definition createChildContext :: "rat \<Rightarrow> Rect \<Rightarrow> BoxLayout \<Rightarrow> rat" where
  "createChildContext dpi frame l = dpi"

definition renderTextElement :: "PDFTextElementData \<Rightarrow> Rect \<Rightarrow> call list" where
  "renderTextElement el frame =
     (let style = td_style el in
      [SetFont (ts_font style),
       SetFontSize (ts_fontSize style),
       SetFillColor (nullish (ts_color style) ''#000000''),
       SetOpacity (nullish (ts_opacity style) 1)] @
      (case ts_gradientFill style of None \<Rightarrow> [] | Some g \<Rightarrow> [SetTextGradient g frame]) @
      (case ts_stroke style of
         None \<Rightarrow> []
       | Some s \<Rightarrow>
           [SetTextStroke (nullish (stroke_width s) 0) (nullish (stroke_color s) ''#000000'')]) @
      [DrawText (td_text el) frame
         (nullish (case ts_paragraph style of None \<Rightarrow> None | Some p \<Rightarrow> par_align p) ''left'')
         (ts_leading style) (ts_tracking style) (ts_kerning style)
         (ts_paragraph style) (ts_decorations style)])"

definition renderImageElement ::
  "(Rect \<Rightarrow> string \<Rightarrow> Rect) \<Rightarrow> PDFImageElementData \<Rightarrow> Rect \<Rightarrow> call list" where
  "renderImageElement fit img frame =
     (let fitted = fit frame (nullish (img_objectFit img) ''cover'') in
      [SetOpacity (nullish (img_opacity img) 1),
       SetBlendMode (nullish (img_blendMode img) ''normal''),
       ComputeObjectFit frame (nullish (img_objectFit img) ''cover'')] @
      (case img_shadow img of None \<Rightarrow> [] | Some s \<Rightarrow> [DrawShadow fitted s]) @
      [DrawImage (img_src img) fitted (img_borderRadius img)])"

definition renderShapeElement :: "PDFVectorShapeElementData \<Rightarrow> Rect \<Rightarrow> call list" where
  "renderShapeElement shape frame =
     [SetShapeStroke (sh_stroke shape),
      SetShapeFill (sh_fill shape),
      DrawShape frame (sh_shapeType shape) (sh_pathData shape) (sh_points shape)
        (sh_rx shape) (sh_ry shape)]"

text \<open>The comparator \<open>(a, b) => (a.layout.zIndex ?? 0) - (b.layout.zIndex ?? 0)\<close>.\<close>

definition zIndexOf :: "PDFElement \<Rightarrow> rat" where
  "zIndexOf e = nullish (l_zIndex (layout e)) 0"

definition byZIndex :: "PDFElement \<Rightarrow> PDFElement \<Rightarrow> rat" where
  "byZIndex a b = zIndexOf a - zIndexOf b"

function renderElement :: "(Rect \<Rightarrow> string \<Rightarrow> Rect) \<Rightarrow> PDFElement \<Rightarrow> rat \<Rightarrow> call list"
  and renderBoxElement ::
    "(Rect \<Rightarrow> string \<Rightarrow> Rect) \<Rightarrow> BoxLayout \<Rightarrow> PDFElement list option \<Rightarrow> rat \<Rightarrow> Rect \<Rightarrow> call list"
  where
  "renderElement fit element ctx =
     (let frame = computeFrame (layout element) in
      [SaveState] @
      (case element of
         BoxElement i l children \<Rightarrow> renderBoxElement fit l children ctx frame
       | TextElement i l t \<Rightarrow> renderTextElement t frame
       | ImageElement i l g \<Rightarrow> renderImageElement fit g frame
       | ShapeElement i l s \<Rightarrow> renderShapeElement s frame
       | OtherElement i l \<Rightarrow> []) @
      [RestoreState])"
| "renderBoxElement fit l children ctx frame =
     (case children of
        None \<Rightarrow> []
      | Some cs \<Rightarrow>
          if cs = [] then []
          else (let childCtx = createChildContext ctx frame l;
                    sorted = js_sort byZIndex cs
                in concat (map (\<lambda>child. renderElement fit child childCtx) sorted)))"
  by pat_completeness auto
termination
proof (relation "measure (\<lambda>x. case x of
          Inl (fit, element, ctx) \<Rightarrow> 2 * size element
        | Inr (fit, l, children, ctx, frame) \<Rightarrow>
            Suc (2 * size_option (size_list size) children))", goal_cases)
  case 1
  show ?case by simp
next
  case (2 fit element ctx frame i l children)
  then show ?case by simp
next
  case (3 fit l children ctx frame cs childCtx sorted child)
  have set_insert: "set (js_insert byZIndex x xs) = insert x (set xs)" for x xs
    by (induction xs) auto
  have "set (js_sort byZIndex ys) = set ys" for ys
    by (induction ys) (simp_all add: set_insert)
  then have "child \<in> set cs"
    using 3 by simp
  then have "size child \<le> size_list size cs"
    by (simp add: size_list_estimation')
  then show ?case
    using 3 by simp
qed

declare renderElement.simps [simp del] renderBoxElement.simps [simp del]

text \<open>
  The full-page background, drawn when \<open>page.backgroundColor || page.backgroundImage\<close> holds.
\<close>

definition pageBackground :: "rat option \<Rightarrow> rat option \<Rightarrow> PDFPage \<Rightarrow> call list" where
  "pageBackground width height page =
     (let hasColor = (case page_backgroundColor page of None \<Rightarrow> False | Some c \<Rightarrow> c \<noteq> [])
      in if hasColor \<or> page_backgroundImage page \<noteq> None
         then [DrawRect 0 0 width height (page_backgroundColor page)] @
              (case page_backgroundImage page of
                 None \<Rightarrow> []
               | Some bg \<Rightarrow>
                   [DrawBackgroundImage 0 0 width height bg])
         else [])"

text \<open>The body of the loop \<open>for (const page of doc.pages)\<close>.\<close>

definition renderPage :: "(Rect \<Rightarrow> string \<Rightarrow> Rect) \<Rightarrow> rat \<Rightarrow> PDFPage \<Rightarrow> call list" where
  "renderPage fit targetDpi page =
     (let (width, height) = resolvePageSize (page_size page) targetDpi;
          layoutCtx = targetDpi;
          elements = js_sort byZIndex (page_elements page)
      in [BeginPage width height] @
         pageBackground width height page @
         concat (map (\<lambda>el. renderElement fit el layoutCtx) elements) @
         [EndPage])"

definition renderPDFDocument ::
  "PDFDocument \<Rightarrow> rat \<Rightarrow> (Rect \<Rightarrow> string \<Rightarrow> Rect) \<Rightarrow> call list" where
  "renderPDFDocument doc targetDpi fit =
     [BeginDocument (doc_metadata doc) (doc_colorProfile doc) targetDpi] @
     concat (map (renderPage fit targetDpi) (doc_pages doc)) @
     [EndDocument]"


text \<open>
  The order the specification asks for, as a relation between the elements in document order
  and the order of dispatch: ascending z-index, the same elements, and the elements of each
  z-index in their document order.
\<close>

definition z_ordered :: "PDFElement list \<Rightarrow> PDFElement list \<Rightarrow> bool" where
  "z_ordered els order \<longleftrightarrow>
     sorted (map zIndexOf order) \<and> mset order = mset els \<and>
     (\<forall>k. filter (\<lambda>e. zIndexOf e = k) order = filter (\<lambda>e. zIndexOf e = k) els)"


text \<open>Elements used as examples: an element that has only an identifier and a z-index.\<close>

definition zel :: "string \<Rightarrow> rat \<Rightarrow> PDFElement" where
  "zel i z =
     OtherElement i \<lparr>l_position = None, l_x = None, l_y = None, l_width = None,
                     l_height = None, l_zIndex = Some z, l_backgroundColor = None\<rparr>"

definition ex_elements :: "PDFElement list" where
  "ex_elements = [zel ''a'' 3, zel ''b'' 1, zel ''c'' 2]"

definition ex_page :: PDFPage where
  "ex_page =
     \<lparr>page_id = ''page-1'', page_size = A4_SIZE, page_backgroundColor = None,
      page_backgroundImage = None, page_elements = ex_elements\<rparr>"


section \<open>The stable sort\<close>

text \<open>
  With a comparator that orders the elements at hand by a key, \<open>js_sort\<close> is the stable sort
  by that key.
\<close>

lemma js_insert_insort_key:
  assumes "\<And>y. y \<in> set xs \<Longrightarrow> (cmp x y \<le> 0) = (f x \<le> f y)"
  shows "js_insert cmp x xs = insort_key f x xs"
  using assms by (induction xs) simp_all

lemma js_sort_sort_key:
  assumes "\<And>a b. a \<in> set xs \<Longrightarrow> b \<in> set xs \<Longrightarrow> (cmp a b \<le> 0) = (f a \<le> f b)"
  shows "js_sort cmp xs = sort_key f xs"
  using assms
proof (induction xs)
  case Nil
  show ?case by simp
next
  case (Cons x xs)
  have tl: "js_sort cmp xs = sort_key f xs"
    using Cons.prems by (intro Cons.IH) simp_all
  have "js_insert cmp x (sort_key f xs) = insort_key f x (sort_key f xs)"
    using Cons.prems by (intro js_insert_insort_key) simp
  then show ?case
    by (simp add: tl)
qed


section \<open>Pagination: the page count\<close>

lemma pad_pages_eq:
  "pad_pages contentPages pages =
     pages @ replicate (nat (contentPages - int (length pages))) placeholderContent"
proof (induction contentPages pages rule: pad_pages.induct)
  case (1 contentPages pages)
  show ?case
  proof (cases "int (length pages) < contentPages")
    case True
    have n: "nat (contentPages - int (length pages)) =
             Suc (nat (contentPages - int (length (pages @ [placeholderContent]))))"
      using True by simp
    show ?thesis
      using True 1 pad_pages.simps [of contentPages pages]
      by (simp only: n replicate_Suc if_True append_assoc append_Cons append_Nil)
  next
    case False
    then show ?thesis
      using pad_pages.simps [of contentPages pages] by simp
  qed
qed

lemma paginate_loop_length:
  assumes "paginate_loop contentPages cap blocks (pages, cur, w) = (pages', cur', w')"
    and "int (length pages) \<le> contentPages - 1"
  shows "int (length pages') \<le> contentPages - 1"
  using assms
proof (induction blocks arbitrary: pages cur w)
  case Nil
  then show ?case by simp
next
  case (Cons blk rest)
  show ?case
  proof (cases "val_gt_num (js_add w (getBlockWeight blk)) cap
                 \<and> int (length pages) < contentPages - 1")
    case True
    with Cons.prems(1)
    have "paginate_loop contentPages cap rest (pages @ [cur], [blk], getBlockWeight blk)
            = (pages', cur', w')"
      by (simp add: Let_def)
    moreover have "int (length (pages @ [cur])) \<le> contentPages - 1"
      using True by simp
    ultimately show ?thesis by (rule Cons.IH)
  next
    case False
    with Cons.prems(1)
    have "paginate_loop contentPages cap rest (pages, cur @ [blk], js_add w (getBlockWeight blk))
            = (pages', cur', w')"
      by (auto simp add: Let_def)
    then show ?thesis using Cons.prems(2) by (rule Cons.IH)
  qed
qed

lemma greedy_pages_length:
  assumes "1 \<le> contentPages"
  shows "int (length (greedy_pages blocks contentPages scale)) \<le> contentPages"
proof -
  obtain pages cur w where
    r: "paginate_loop contentPages (js_div 850 scale) blocks ([], [], Number 0) = (pages, cur, w)"
    by (cases "paginate_loop contentPages (js_div 850 scale) blocks ([], [], Number 0)") auto
  have "int (length pages) \<le> contentPages - 1"
    using paginate_loop_length [OF r] assms by simp
  then show ?thesis
    by (simp add: greedy_pages_def r)
qed

text \<open>
  Claim C1. For every block list (empty, missing or not), every \<open>contentPages \<ge> 1\<close> and every
  scale, \<open>paginateContent\<close> returns normally, with exactly \<open>contentPages\<close> page groups.
\<close>

theorem paginateContent_exact_page_count:
  assumes "1 \<le> contentPages"
  shows "\<exists>pages. paginateContent blocks contentPages scale = Inr pages
           \<and> int (length pages) = contentPages"
proof (cases blocks)
  case None
  then show ?thesis using assms by (simp add: paginateContent_def)
next
  case (Some bs)
  show ?thesis
  proof (cases bs)
    case Nil
    then show ?thesis using Some assms by (simp add: paginateContent_def)
  next
    case (Cons b rest)
    have "int (length (greedy_pages (b # rest) contentPages scale)) \<le> contentPages"
      using assms by (rule greedy_pages_length)
    then show ?thesis
      using Some Cons assms
      by (simp add: paginateContent_def pad_pages_eq js_slice0_def)
  qed
qed

theorem paginateContent_exact_page_count_witness:
  "(1::int) \<le> 3 \<and>
   (\<exists>pages. paginateContent (Some [plain_block ''h2'' ''Intro'']) 3 1 = Inr pages
      \<and> int (length pages) = 3)"
  using paginateContent_exact_page_count [of 3 "Some [plain_block ''h2'' ''Intro'']" 1]
  by simp

text \<open>
  Claim C2, as the code has it. With an empty block list and \<open>contentPages = 3\<close> the guard
  at the head of \<open>paginateContent\<close> returns three empty page groups, for every scale: no
  error, three pages, and no placeholder content on this path.
\<close>

theorem paginateContent_empty_three_pages:
  "paginateContent (Some []) 3 scale = Inr [[], [], []]"
  by (simp add: paginateContent_def numeral_3_eq_3)

text \<open>
  Claim C2 as stated, with three filler pages, fails: the three pages of the empty input are
  not the placeholder page (a heading, two paragraphs and a key term), which the padding loop
  appends only after a non-empty input.
\<close>

theorem paginateContent_empty_not_filler:
  "paginateContent (Some []) 3 1
     \<noteq> Inr [placeholderContent, placeholderContent, placeholderContent]"
  by (simp add: paginateContent_def numeral_3_eq_3 placeholderContent_def)


section \<open>Pagination: content and order\<close>

lemma paginate_loop_concat:
  assumes "paginate_loop contentPages cap blocks (pages, cur, w) = (pages', cur', w')"
  shows "concat pages' @ cur' = concat pages @ cur @ blocks"
  using assms
proof (induction blocks arbitrary: pages cur w)
  case Nil
  then show ?case by simp
next
  case (Cons blk rest)
  show ?case
  proof (cases "val_gt_num (js_add w (getBlockWeight blk)) cap
                 \<and> int (length pages) < contentPages - 1")
    case True
    with Cons.prems
    have "paginate_loop contentPages cap rest (pages @ [cur], [blk], getBlockWeight blk)
            = (pages', cur', w')"
      by (simp add: Let_def)
    from Cons.IH [OF this] show ?thesis by simp
  next
    case False
    with Cons.prems
    have "paginate_loop contentPages cap rest (pages, cur @ [blk], js_add w (getBlockWeight blk))
            = (pages', cur', w')"
      by (auto simp add: Let_def)
    from Cons.IH [OF this] show ?thesis by simp
  qed
qed

lemma greedy_pages_concat: "concat (greedy_pages blocks contentPages scale) = blocks"
proof -
  obtain pages cur w where
    r: "paginate_loop contentPages (js_div 850 scale) blocks ([], [], Number 0) = (pages, cur, w)"
    by (cases "paginate_loop contentPages (js_div 850 scale) blocks ([], [], Number 0)") auto
  have "concat pages @ cur = blocks"
    using paginate_loop_concat [OF r] by simp
  then show ?thesis
    by (auto simp add: greedy_pages_def r)
qed

text \<open>
  Claim C10. For a non-empty block list and \<open>contentPages \<ge> 1\<close> the result is a sequence of
  groups whose concatenation is the input, block for block and in order (so each group is a
  contiguous segment of it), followed only by placeholder pages; the groups are at most
  \<open>contentPages\<close> many, so the final slice cuts none of them.
\<close>

theorem paginateContent_preserves_content:
  assumes "blocks \<noteq> []" and "1 \<le> contentPages"
  shows "\<exists>groups.
           paginateContent (Some blocks) contentPages scale
             = Inr (groups @ replicate (nat contentPages - length groups) placeholderContent)
           \<and> concat groups = blocks
           \<and> int (length groups) \<le> contentPages"
proof -
  let ?g = "greedy_pages blocks contentPages scale"
  have len: "int (length ?g) \<le> contentPages"
    using assms(2) by (rule greedy_pages_length)
  have n: "nat (contentPages - int (length ?g)) = nat contentPages - length ?g"
    by simp
  obtain b bs where bs: "blocks = b # bs"
    using assms(1) by (cases blocks) auto
  have "paginateContent (Some blocks) contentPages scale
          = Inr (js_slice0 (pad_pages contentPages ?g) contentPages)"
    by (simp add: paginateContent_def bs)
  also have "js_slice0 (pad_pages contentPages ?g) contentPages
          = ?g @ replicate (nat contentPages - length ?g) placeholderContent"
    using len assms(2) by (simp add: pad_pages_eq js_slice0_def n)
  finally show ?thesis
    using len greedy_pages_concat [of blocks contentPages scale] by blast
qed

theorem paginateContent_preserves_content_witness:
  "[plain_block ''h2'' ''Intro'', plain_block ''quote'' ''Q''] \<noteq> [] \<and> (1::int) \<le> 2 \<and>
   (\<exists>groups.
      paginateContent (Some [plain_block ''h2'' ''Intro'', plain_block ''quote'' ''Q'']) 2 1
        = Inr (groups @ replicate (nat 2 - length groups) placeholderContent)
      \<and> concat groups = [plain_block ''h2'' ''Intro'', plain_block ''quote'' ''Q'']
      \<and> int (length groups) \<le> 2)"
  using paginateContent_preserves_content
    [of "[plain_block ''h2'' ''Intro'', plain_block ''quote'' ''Q'']" 2 1]
  by simp



section \<open>Weights that are numbers\<close>








lemma val_le_Number: "val_le x c \<Longrightarrow> \<exists>n. x = Number n"
  by (cases x) simp_all









section \<open>Fit pass: raising, scale and idempotence\<close>

lemma fit_state_weight:
  "snd (fit_state blocks contentPages) = total_weight (fst (fit_state blocks contentPages))"
  by (simp add: fit_state_def trim_blocks_def Let_def)

text \<open>
  Claim C3, at an input on which the code raises. The block list holds one paragraph whose
  \<open>text\<close> is an object that \<open>String\<close> cannot convert, as \<open>{ "toString": null }\<close> parsed from
  JSON: the first \<open>getBlockWeight\<close> raises a TypeError, for every \<open>contentPages\<close>. On a missing
  or empty block list the call returns the empty list with scale 1.
\<close>

theorem optimizeContentToFit_any_raises:
  "optimizeContentToFit_any (Some ex_unreadable) contentPages = Inl TypeError
   \<and> optimizeContentToFit_any None contentPages
       = Inr \<lparr>res_blocks = [], res_scale = 1, res_metrics = None\<rparr>
   \<and> optimizeContentToFit_any (Some []) contentPages
       = Inr \<lparr>res_blocks = [], res_scale = 1, res_metrics = None\<rparr>"
  by (simp add: optimizeContentToFit_any_def ex_unreadable_def)

lemma optimizeContentToFit_any_returns:
  assumes "read_blocks as = Inr bs"
  shows "optimizeContentToFit_any (Some as) contentPages
           = Inr (optimizeContentToFit (Some bs) contentPages)"
proof (cases as)
  case Nil
  then show ?thesis
    using assms by (simp add: optimizeContentToFit_any_def optimizeContentToFit_def)
next
  case (Cons a rest)
  then show ?thesis
    using assms by (simp add: optimizeContentToFit_any_def)
qed

lemma optimizeContentToFit_nonempty:
  assumes "blocks \<noteq> []"
  shows "res_blocks (optimizeContentToFit (Some blocks) contentPages)
           = fst (fit_state blocks contentPages)"
    and "res_scale (optimizeContentToFit (Some blocks) contentPages)
           = (let u = val_div (total_weight (fst (fit_state blocks contentPages)))
                        (contentPages * PAGE_CAPACITY)
              in if js_gt u 1 then 88 / 100 else if js_lt u (7 / 10) then 112 / 100 else 1)"
proof -
  obtain b bs where bs: "blocks = b # bs"
    using assms by (cases blocks) auto
  obtain B W where st: "fit_state (b # bs) contentPages = (B, W)"
    by (cases "fit_state (b # bs) contentPages") auto
  have W: "W = total_weight B"
    using fit_state_weight [of "b # bs" contentPages] st by simp
  show "res_blocks (optimizeContentToFit (Some blocks) contentPages)
          = fst (fit_state blocks contentPages)"
    by (simp add: optimizeContentToFit_def bs st Let_def)
  show "res_scale (optimizeContentToFit (Some blocks) contentPages)
           = (let u = val_div (total_weight (fst (fit_state blocks contentPages)))
                        (contentPages * PAGE_CAPACITY)
              in if js_gt u 1 then 88 / 100 else if js_lt u (7 / 10) then 112 / 100 else 1)"
    by (simp add: optimizeContentToFit_def bs st W Let_def)
qed

lemma fit_state_no_trim:
  assumes "\<not> val_gt (total_weight blocks) (of_int (contentPages * PAGE_CAPACITY) * (11 / 10))"
  shows "fit_state blocks contentPages = (blocks, total_weight blocks)"
  using assms by (simp add: fit_state_def Let_def)



text \<open>
  Claim C6. If the blocks returned by a first call have a total weight within 0.95 and 1.05 of
  the capacity \<open>contentPages * 850\<close>, a second call on them with the same \<open>contentPages\<close>
  returns them unchanged: it removes nothing.
\<close>

theorem optimizeContentToFit_idempotent_in_band:
  assumes "out = res_blocks (optimizeContentToFit allBlocks contentPages)"
    and "total_weight out = Number w"
    and "of_int (contentPages * 850) * (95 / 100) \<le> (of_int w :: rat)"
    and "(of_int w :: rat) \<le> of_int (contentPages * 850) * (105 / 100)"
  shows "res_blocks (optimizeContentToFit (Some out) contentPages) = out"
proof (cases "out = []")
  case True
  then show ?thesis by (simp add: optimizeContentToFit_def)
next
  case False
  have "(0::rat) \<le> of_int (contentPages * 850)"
    using assms(3,4) by simp
  then have "(of_int w :: rat) \<le> of_int (contentPages * 850) * (11 / 10)"
    using assms(4) by simp
  then have "\<not> val_gt (total_weight out) (of_int (contentPages * PAGE_CAPACITY) * (11 / 10))"
    by (simp add: assms(2) PAGE_CAPACITY_def)
  then have "fit_state out contentPages = (out, total_weight out)"
    by (rule fit_state_no_trim)
  then show ?thesis
    by (simp add: optimizeContentToFit_nonempty(1) [OF False])
qed

theorem optimizeContentToFit_idempotent_in_band_witness:
  "ex_fitted = res_blocks (optimizeContentToFit (Some ex_over) 1)
   \<and> total_weight ex_fitted = Number 890
   \<and> of_int (1 * 850) * (95 / 100) \<le> (of_int 890 :: rat)
   \<and> (of_int 890 :: rat) \<le> of_int (1 * 850) * (105 / 100)
   \<and> res_blocks (optimizeContentToFit (Some ex_fitted) 1) = ex_fitted"
proof -
  have a: "ex_fitted = res_blocks (optimizeContentToFit (Some ex_over) 1)"
    by code_simp
  have w: "total_weight ex_fitted = Number 890"
    by code_simp
  show ?thesis
    using optimizeContentToFit_idempotent_in_band [of ex_fitted "Some ex_over" 1 890] a w
    by simp
qed


section \<open>Fit pass: the trimming policy\<close>























section \<open>Page-size resolver: presets and fallback\<close>

text \<open>
  Claim C8 as stated, with the fallback for every unrecognized preset, fails: \<open>toString\<close> is
  not a preset, but \<open>presetMap\<close> inherits a member of that name, so the explicit width 100 and
  height 200 are not used and both dimensions are \<open>undefined\<close>.
\<close>

theorem resolvePageSize_inherited_name:
  "resolvePageSize \<lparr>ps_preset = Some ''toString'', ps_width = Some 100, ps_height = Some 200\<rparr> 72
     \<noteq> (Some 100, Some 200)"
  by (simp add: resolvePageSize_def lookup_def presetMap_def inheritedMembers_def)

text \<open>
  Claim C8, as the code has it. The preset A4 resolves to 595.28 by 841.89, Letter to 612 by
  792 and Legal to 612 by 1008, whatever the explicit width and height and whatever the
  resolution; an absent preset, and any other preset name that is not the name of a member
  inherited from \<open>Object.prototype\<close>, resolve to the explicit width and height, each replaced by
  its A4 default when absent; the resolution never changes the result.
\<close>

theorem resolvePageSize_presets:
  "resolvePageSize \<lparr>ps_preset = Some ''A4'', ps_width = w, ps_height = h\<rparr> dpi
     = (Some (59528 / 100), Some (84189 / 100))
   \<and> resolvePageSize \<lparr>ps_preset = Some ''Letter'', ps_width = w, ps_height = h\<rparr> dpi
     = (Some 612, Some 792)
   \<and> resolvePageSize \<lparr>ps_preset = Some ''Legal'', ps_width = w, ps_height = h\<rparr> dpi
     = (Some 612, Some 1008)
   \<and> (p \<notin> {''A4'', ''Letter'', ''Legal''} \<and> p \<notin> set inheritedMembers \<longrightarrow>
        resolvePageSize \<lparr>ps_preset = Some p, ps_width = w, ps_height = h\<rparr> dpi
          = (Some (case w of None \<Rightarrow> 59528 / 100 | Some x \<Rightarrow> x),
             Some (case h of None \<Rightarrow> 84189 / 100 | Some y \<Rightarrow> y)))
   \<and> resolvePageSize \<lparr>ps_preset = None, ps_width = w, ps_height = h\<rparr> dpi
        = (Some (case w of None \<Rightarrow> 59528 / 100 | Some x \<Rightarrow> x),
           Some (case h of None \<Rightarrow> 84189 / 100 | Some y \<Rightarrow> y))
   \<and> resolvePageSize sz dpi = resolvePageSize sz dpi'"
proof -
  have own: "resolvePageSize \<lparr>ps_preset = Some ''A4'', ps_width = w, ps_height = h\<rparr> dpi
       = (Some (59528 / 100), Some (84189 / 100))
     \<and> resolvePageSize \<lparr>ps_preset = Some ''Letter'', ps_width = w, ps_height = h\<rparr> dpi
       = (Some 612, Some 792)
     \<and> resolvePageSize \<lparr>ps_preset = Some ''Legal'', ps_width = w, ps_height = h\<rparr> dpi
       = (Some 612, Some 1008)"
    by (simp add: resolvePageSize_def lookup_def presetMap_def)
  have other: "p \<notin> {''A4'', ''Letter'', ''Legal''} \<and> p \<notin> set inheritedMembers \<longrightarrow>
        resolvePageSize \<lparr>ps_preset = Some p, ps_width = w, ps_height = h\<rparr> dpi
          = (Some (case w of None \<Rightarrow> 59528 / 100 | Some x \<Rightarrow> x),
             Some (case h of None \<Rightarrow> 84189 / 100 | Some y \<Rightarrow> y))"
    by (auto simp add: resolvePageSize_def lookup_def presetMap_def nullish_def
          split: option.splits)
  have none: "resolvePageSize \<lparr>ps_preset = None, ps_width = w, ps_height = h\<rparr> dpi
        = (Some (case w of None \<Rightarrow> 59528 / 100 | Some x \<Rightarrow> x),
           Some (case h of None \<Rightarrow> 84189 / 100 | Some y \<Rightarrow> y))"
    by (simp add: resolvePageSize_def nullish_def split: option.splits)
  have dpi: "resolvePageSize sz dpi = resolvePageSize sz dpi'"
    by (simp add: resolvePageSize_def)
  show ?thesis
    using own other none dpi by blast
qed

theorem resolvePageSize_presets_witness:
  "''A3'' \<notin> {''A4'', ''Letter'', ''Legal''} \<and> ''A3'' \<notin> set inheritedMembers
   \<and> resolvePageSize \<lparr>ps_preset = Some ''A3'', ps_width = Some 100, ps_height = None\<rparr> 72
       = (Some 100, Some (84189 / 100))"
proof -
  have a: "''A3'' \<notin> set inheritedMembers"
    by (simp add: inheritedMembers_def)
  show ?thesis
    using a resolvePageSize_presets
      [where p = "''A3''" and w = "Some 100" and h = None and dpi = 72 and dpi' = 300
         and sz = A4_SIZE]
    by simp
qed


section \<open>Content model adapter: the vertical cursor\<close>

lemma with_index_append: "with_index k (xs @ [x]) = with_index k xs @ [(x, k + length xs)]"
  by (induction xs arbitrary: k) simp_all

lemma walk_content_snoc:
  "walk_content pageIndex elements (pre @ [b])
     = adapt_block pageIndex (walk_content pageIndex elements pre) (b, length pre)"
  by (simp add: walk_content_def with_index_append)

text \<open>
  Claim C9. The elements of a content page are its heading, if any, followed by what the
  walk over its content blocks adds. The walk starts with the cursor at 130, below the
  heading. Whatever came before it, a block moves the cursor by two line heights if it is an
  \<open>h2\<close>, by three if it is a \<open>p\<close>, by 100 if it is a \<open>stat\<close>, and not at all otherwise; an
  \<open>h2\<close>, \<open>p\<close> or \<open>stat\<close> block adds one element, placed at the cursor, and any other block
  (or a \<open>null\<close> entry) adds none.
\<close>

theorem adapter_cursor:
  "page_elements (content_page (page, pageIndex))
     = fst (walk_content pageIndex (titleElements page pageIndex)
              (case tp_content page of None \<Rightarrow> [] | Some c \<Rightarrow> c))
   \<and> snd (walk_content pageIndex elements []) = 130
   \<and> (let st = walk_content pageIndex elements pre;
           st' = walk_content pageIndex elements (pre @ [b])
       in snd st' = snd st +
            (if has_type ''h2'' b then 2 * lineHeight
             else if has_type ''p'' b then 3 * lineHeight
             else if has_type ''stat'' b then 100
             else 0)
          \<and> (if has_type ''h2'' b \<or> has_type ''p'' b \<or> has_type ''stat'' b
              then \<exists>el. fst st' = fst st @ [el] \<and> l_y (layout el) = Some (snd st)
              else fst st' = fst st))"
proof -
  have start: "page_elements (content_page (page, pageIndex))
     = fst (walk_content pageIndex (titleElements page pageIndex)
              (case tp_content page of None \<Rightarrow> [] | Some c \<Rightarrow> c))
   \<and> snd (walk_content pageIndex elements []) = 130"
    by (simp add: walk_content_def content_page_def Let_def)
  show ?thesis
  proof (cases b)
    case None
    then show ?thesis
      using start by (simp add: walk_content_snoc adapt_block_def Let_def)
  next
    case (Some blk)
    then show ?thesis
      using start
      by (simp add: walk_content_snoc adapt_block_def Let_def absolute_def)
  qed
qed

theorem adapter_cursor_witness:
  "has_type ''stat'' (plain_block ''stat'' ''s'')
   \<and> snd (walk_content 0 [] [plain_block ''h2'' ''T'']) = 130 + 2 * 20
   \<and> snd (walk_content 0 [] ([plain_block ''h2'' ''T''] @ [plain_block ''stat'' ''s'']))
       = 130 + 2 * 20 + 100
   \<and> snd (walk_content 0 [] ([plain_block ''h2'' ''T''] @ [plain_block ''quote'' ''q'']))
       = 130 + 2 * 20
   \<and> fst (walk_content 0 [] ([plain_block ''h2'' ''T''] @ [plain_block ''quote'' ''q'']))
       = fst (walk_content 0 [] [plain_block ''h2'' ''T''])"
proof -
  have a: "snd (walk_content 0 [] [plain_block ''h2'' ''T'']) = 130 + 2 * 20"
    by (simp add: walk_content_def adapt_block_def plain_block_def Let_def lineHeight_def)
  show ?thesis
    using a
      adapter_cursor [where pageIndex = 0 and elements = "[]"
        and pre = "[plain_block ''h2'' ''T'']" and b = "plain_block ''stat'' ''s''"]
      adapter_cursor [where pageIndex = 0 and elements = "[]"
        and pre = "[plain_block ''h2'' ''T'']" and b = "plain_block ''quote'' ''q''"]
    by (simp add: Let_def plain_block_def)
qed


section \<open>Renderer: the order of dispatch\<close>

lemma js_sort_byZIndex: "js_sort byZIndex els = sort_key zIndexOf els"
  by (rule js_sort_sort_key) (simp add: byZIndex_def)

lemma z_ordered_js_sort: "z_ordered els (js_sort byZIndex els)"
  by (simp add: z_ordered_def js_sort_byZIndex sort_key_stable)

lemma z_ordered_example:
  assumes "z_ordered els order" and "map zIndexOf els = [3, 1, 2]"
  shows "map zIndexOf order = [1, 2, 3]"
proof -
  have "mset (map zIndexOf order) = mset (map zIndexOf els)"
    using assms(1) by (simp add: z_ordered_def)
  moreover have "sorted (map zIndexOf order)"
    using assms(1) by (simp add: z_ordered_def)
  ultimately have "sort (map zIndexOf els) = map zIndexOf order"
    by (rule properties_for_sort)
  then show ?thesis
    by (simp add: assms(2))
qed

text \<open>
  Claim C7. The calls made for the elements of a page are the calls of \<open>renderElement\<close> for
  each element, one element after the other, in an order that is ascending in z-index, holds
  the same elements and keeps the elements of equal z-index in document order; rendering a box
  element does the same for its children, between saving and restoring the state. The order
  is a function of the document. Elements with z-indices 3, 1, 2 in document order are
  dispatched in the order 1, 2, 3.
\<close>

theorem renderer_z_order:
  "(\<exists>order. z_ordered (page_elements page) order
       \<and> renderPage fit dpi page =
           [BeginPage (fst (resolvePageSize (page_size page) dpi))
              (snd (resolvePageSize (page_size page) dpi))] @
           pageBackground (fst (resolvePageSize (page_size page) dpi))
              (snd (resolvePageSize (page_size page) dpi)) page @
           concat (map (\<lambda>el. renderElement fit el dpi) order) @ [EndPage])
   \<and> renderElement fit (BoxElement i l (Some children)) ctx =
       [SaveState] @ renderBoxElement fit l (Some children) ctx (computeFrame l) @ [RestoreState]
   \<and> (children \<noteq> [] \<longrightarrow>
        (\<exists>order. z_ordered children order
           \<and> renderBoxElement fit l (Some children) ctx frame =
               concat (map (\<lambda>child. renderElement fit child (createChildContext ctx frame l))
                         order)))
   \<and> (z_ordered els order' \<and> map zIndexOf els = [3, 1, 2] \<longrightarrow>
        map zIndexOf order' = [1, 2, 3])"
proof -
  have page: "\<exists>order. z_ordered (page_elements page) order
       \<and> renderPage fit dpi page =
           [BeginPage (fst (resolvePageSize (page_size page) dpi))
              (snd (resolvePageSize (page_size page) dpi))] @
           pageBackground (fst (resolvePageSize (page_size page) dpi))
              (snd (resolvePageSize (page_size page) dpi)) page @
           concat (map (\<lambda>el. renderElement fit el dpi) order) @ [EndPage]"
    by (rule exI [of _ "js_sort byZIndex (page_elements page)"])
       (simp add: z_ordered_js_sort renderPage_def Let_def split_beta)
  have el: "renderElement fit (BoxElement i l (Some children)) ctx =
       [SaveState] @ renderBoxElement fit l (Some children) ctx (computeFrame l) @ [RestoreState]"
    by (simp add: renderElement.simps Let_def)
  have box: "children \<noteq> [] \<longrightarrow>
        (\<exists>order. z_ordered children order
           \<and> renderBoxElement fit l (Some children) ctx frame =
               concat (map (\<lambda>child. renderElement fit child (createChildContext ctx frame l))
                         order))"
  proof
    assume "children \<noteq> []"
    then show "\<exists>order. z_ordered children order
           \<and> renderBoxElement fit l (Some children) ctx frame =
               concat (map (\<lambda>child. renderElement fit child (createChildContext ctx frame l))
                         order)"
      by (intro exI [of _ "js_sort byZIndex children"])
         (simp add: z_ordered_js_sort renderBoxElement.simps Let_def)
  qed
  have ex: "z_ordered els order' \<and> map zIndexOf els = [3, 1, 2] \<longrightarrow>
        map zIndexOf order' = [1, 2, 3]"
    using z_ordered_example [of els order'] by simp
  show ?thesis
    by (rule conjI [OF page conjI [OF el conjI [OF box ex]]])
qed

theorem renderer_z_order_witness:
  "ex_elements \<noteq> []
   \<and> z_ordered ex_elements [zel ''b'' 1, zel ''c'' 2, zel ''a'' 3]
   \<and> map zIndexOf ex_elements = [3, 1, 2]
   \<and> map zIndexOf [zel ''b'' 1, zel ''c'' 2, zel ''a'' 3] = [1, 2, 3]
   \<and> (\<exists>order. z_ordered ex_elements order
         \<and> renderBoxElement (\<lambda>r m. r) (layout (zel ''box'' 0)) (Some ex_elements) 72
             (computeFrame (layout (zel ''box'' 0)))
           = concat (map (\<lambda>child. renderElement (\<lambda>r m. r) child
                           (createChildContext 72 (computeFrame (layout (zel ''box'' 0)))
                              (layout (zel ''box'' 0))))
                      order))"
proof -
  have s: "js_sort byZIndex ex_elements = [zel ''b'' 1, zel ''c'' 2, zel ''a'' 3]"
    by (simp add: ex_elements_def byZIndex_def zIndexOf_def zel_def nullish_def)
  have zo: "z_ordered ex_elements [zel ''b'' 1, zel ''c'' 2, zel ''a'' 3]"
    using z_ordered_js_sort [of ex_elements] by (simp only: s)
  have zs: "map zIndexOf ex_elements = [3, 1, 2]"
    by (simp add: ex_elements_def zIndexOf_def zel_def nullish_def)
  have ne: "ex_elements \<noteq> []"
    by (simp add: ex_elements_def)
  show ?thesis
    using zo zs ne
      renderer_z_order [where page = ex_page and fit = "\<lambda>r m. r" and dpi = 72
        and i = "''box''" and l = "layout (zel ''box'' 0)" and children = ex_elements
        and ctx = 72 and frame = "computeFrame (layout (zel ''box'' 0))"
        and els = ex_elements and order' = "[zel ''b'' 1, zel ''c'' 2, zel ''a'' 3]"]
    by simp
qed

end
